theory Spec2Isabelle
  imports Main
begin

section \<open>Platform values: strings and URLs\<close>

text \<open>
  Strings are byte strings (UTF-8). The two encoders below are the ones the platform
  applies when \<^verbatim>\<open>URLSearchParams.toString()\<close> serialises a parameter and when the
  \<^verbatim>\<open>search\<close> setter of a URL stores a query.
\<close>

definition hex_digit :: "nat \<Rightarrow> char" where
  "hex_digit n = ''0123456789ABCDEF'' ! (n mod 16)"

definition percent_encode :: "char \<Rightarrow> string" where
  "percent_encode c = [CHR ''%'', hex_digit ((of_char c :: nat) div 16), hex_digit ((of_char c :: nat) mod 16)]"

definition is_alnum :: "char \<Rightarrow> bool" where
  "is_alnum c =
     (let n = (of_char c :: nat)
      in (48 \<le> n \<and> n \<le> 57) \<or> (65 \<le> n \<and> n \<le> 90) \<or> (97 \<le> n \<and> n \<le> 122))"

text \<open>Byte serialisation of \<^verbatim>\<open>application/x-www-form-urlencoded\<close>: a space becomes
  \<^verbatim>\<open>+\<close>, alphanumerics and \<^verbatim>\<open>* - . _\<close> stay, every other byte is percent-encoded.\<close>

definition form_encode_byte :: "char \<Rightarrow> string" where
  "form_encode_byte c =
     (if c = CHR '' '' then ''+''
      else if is_alnum c \<or> c \<in> set ''*-._'' then [c]
      else percent_encode c)"

definition form_encode :: "string \<Rightarrow> string" where
  "form_encode s = concat (map form_encode_byte s)"

text \<open>\<^verbatim>\<open>new URLSearchParams({code}).toString()\<close>: one pair, named \<^verbatim>\<open>code\<close>.\<close>

definition searchParams_code :: "string \<Rightarrow> string" where
  "searchParams_code code = form_encode ''code'' @ ''='' @ form_encode code"

text \<open>A URL record as the URL standard has it; the path is either opaque (as in
  \<^verbatim>\<open>mailto:x\<close>) or a list of segments.\<close>

datatype url_path = Opaque string | Segments "string list"

record URL =
  scheme :: string
  username :: string
  password :: string
  host :: "string option"
  port :: "string option"
  path :: url_path
  query :: "string option"
  fragment :: "string option"

definition is_special :: "URL \<Rightarrow> bool" where
  "is_special u = (scheme u \<in> set [''http'', ''https'', ''ws'', ''wss'', ''ftp'', ''file''])"

text \<open>The getters of the platform's \<^verbatim>\<open>URL\<close> class that the code reads.\<close>

definition protocol :: "URL \<Rightarrow> string" where
  "protocol u = scheme u @ '':''"

definition hostname :: "URL \<Rightarrow> string" where
  "hostname u = (case host u of None \<Rightarrow> '''' | Some h \<Rightarrow> h)"

definition pathname :: "URL \<Rightarrow> string" where
  "pathname u = (case path u of Opaque p \<Rightarrow> p | Segments segs \<Rightarrow> concat (map (\<lambda>s. ''/'' @ s) segs))"

definition search :: "URL \<Rightarrow> string" where
  "search u = (case query u of None \<Rightarrow> '''' | Some q \<Rightarrow> if q = '''' then '''' else ''?'' @ q)"

definition hash :: "URL \<Rightarrow> string" where
  "hash u = (case fragment u of None \<Rightarrow> '''' | Some f \<Rightarrow> if f = '''' then '''' else ''#'' @ f)"

definition href :: "URL \<Rightarrow> string" where
  "href u =
     scheme u @ '':'' @
     (case host u of
        Some h \<Rightarrow>
          ''//'' @
          (if username u \<noteq> '''' \<or> password u \<noteq> ''''
           then username u @ (if password u \<noteq> '''' then '':'' @ password u else '''') @ ''@''
           else '''') @
          h @ (case port u of None \<Rightarrow> '''' | Some p \<Rightarrow> '':'' @ p)
      | None \<Rightarrow>
          (case path u of
             Segments (s # _ # _) \<Rightarrow> if s = '''' then ''/.'' else ''''
           | _ \<Rightarrow> '''')) @
     pathname u @
     (case query u of None \<Rightarrow> '''' | Some q \<Rightarrow> ''?'' @ q) @
     (case fragment u of None \<Rightarrow> '''' | Some f \<Rightarrow> ''#'' @ f)"

text \<open>The \<^verbatim>\<open>search\<close> setter: the empty string clears the query; otherwise one leading
  \<^verbatim>\<open>?\<close> is dropped, tabs and newlines are removed and the bytes of the query
  percent-encode set are encoded.\<close>

definition in_query_encode_set :: "bool \<Rightarrow> char \<Rightarrow> bool" where
  "in_query_encode_set special c =
     (let n = (of_char c :: nat)
      in n \<le> 31 \<or> 126 < n \<or> c \<in> set [CHR '' '', CHR 0x22, CHR ''#'', CHR ''<'', CHR ''>'']
         \<or> (special \<and> c = CHR 0x27))"

definition query_encode :: "bool \<Rightarrow> string \<Rightarrow> string" where
  "query_encode special s =
     concat (map (\<lambda>c. if in_query_encode_set special c then percent_encode c else [c])
               (filter (\<lambda>c. c \<notin> set [CHR 0x09, CHR 0x0A, CHR 0x0D]) s))"

definition set_search :: "string \<Rightarrow> URL \<Rightarrow> URL" where
  "set_search v u =
     (if v = '''' then u\<lparr>query := None\<rparr>
      else u\<lparr>query := Some (query_encode (is_special u)
                              (case v of c # r \<Rightarrow> if c = CHR ''?'' then r else v | [] \<Rightarrow> v))\<rparr>)"

section \<open>Errors\<close>

text \<open>Every \<^verbatim>\<open>throw\<close> of the two source files is one constructor; the template
  strings keep their interpolated values. \<^verbatim>\<open>InvalidURL\<close> is the platform's
  \<^verbatim>\<open>TypeError\<close> of the \<^verbatim>\<open>URL\<close> constructor.\<close>

datatype error =
    IssuerMustBeHttps
  | IssuerHasFragment string
  | IssuerHasQuery string
  | InvalidAuthorizationCode
  | NotIssuedToThisClient string string
  | NotImplemented
  | InvalidOrExpiredToken
  | InvalidURL

section \<open>Issuer validation\<close>

definition checkIssuerUrl :: "URL \<Rightarrow> error + unit" where
  "checkIssuerUrl issuer =
     (if protocol issuer \<noteq> ''https:'' \<and> hostname issuer \<noteq> ''localhost''
         \<and> hostname issuer \<noteq> ''127.0.0.1''
      then Inl IssuerMustBeHttps
      else if hash issuer \<noteq> '''' then Inl (IssuerHasFragment (href issuer))
      else if search issuer \<noteq> '''' then Inl (IssuerHasQuery (href issuer))
      else Inr ())"

section \<open>The in-memory provider\<close>

text \<open>Of the client metadata the provider reads \<^verbatim>\<open>client_id\<close> and
  \<^verbatim>\<open>redirect_uris\<close> only.\<close>

record OAuthClientInformationFull =
  client_id :: string
  redirect_uris :: "string list"

record AuthorizationParams =
  state :: "string option"
  scopes :: "string list option"
  codeChallenge :: string
  redirectUri :: string

record CodeData =
  params :: AuthorizationParams
  client :: OAuthClientInformationFull

text \<open>The object stored in the token map (\<^verbatim>\<open>tokenData\<close>); \<^verbatim>\<open>expiresAt\<close> is
  optional in the map's value type, and is in milliseconds here.\<close>

record TokenData =
  token :: string
  clientId :: string
  tscopes :: "string list"
  expiresAt :: "int option"
  ttype :: string

text \<open>The object \<^verbatim>\<open>verifyAccessToken\<close> returns; \<^verbatim>\<open>info_expiresAt\<close> is in seconds,
  \<open>None\<close> standing for the \<^verbatim>\<open>NaN\<close> that \<^verbatim>\<open>Math.floor(undefined / 1000)\<close> gives.\<close>

record AuthInfo =
  info_token :: string
  info_clientId :: string
  info_scopes :: "string list"
  info_expiresAt :: "int option"

record OAuthTokens =
  access_token :: string
  token_type :: string
  expires_in :: int
  scope :: string

record InMemoryAuthProvider =
  clients :: "string \<rightharpoonup> OAuthClientInformationFull"
  codes :: "string \<rightharpoonup> CodeData"
  tokens :: "string \<rightharpoonup> TokenData"

definition new_InMemoryAuthProvider :: InMemoryAuthProvider where
  "new_InMemoryAuthProvider = \<lparr>clients = Map.empty, codes = Map.empty, tokens = Map.empty\<rparr>"

definition getClient :: "InMemoryAuthProvider \<Rightarrow> string \<Rightarrow> OAuthClientInformationFull option" where
  "getClient p cid = clients p cid"

definition registerClient ::
  "InMemoryAuthProvider \<Rightarrow> OAuthClientInformationFull
     \<Rightarrow> InMemoryAuthProvider \<times> OAuthClientInformationFull" where
  "registerClient p clientMetadata =
     (p\<lparr>clients := (clients p)(client_id clientMetadata \<mapsto> clientMetadata)\<rparr>, clientMetadata)"

text \<open>\<^verbatim>\<open>Array.prototype.join\<close> on an array of strings.\<close>

fun join :: "string \<Rightarrow> string list \<Rightarrow> string" where
  "join sep [] = []"
| "join sep [x] = x"
| "join sep (x # y # ys) = x @ sep @ join sep (y # ys)"

text \<open>
  \<^verbatim>\<open>authorize\<close>. The fresh \<^verbatim>\<open>randomUUID()\<close> is the argument \<open>code\<close>, the platform's
  one-argument \<^verbatim>\<open>URL\<close> constructor is the argument \<open>newURL\<close> (\<open>None\<close> when it throws).
  The code record is stored before the target URL is built, so the store is updated
  also when the constructor throws; \<^verbatim>\<open>redirect_uris[0]\<close> of an empty array is
  \<^verbatim>\<open>undefined\<close>, which the constructor reads as the string \<^verbatim>\<open>undefined\<close>.
  The result is the argument of \<^verbatim>\<open>res.redirect\<close>.
\<close>

definition authorize ::
  "(string \<Rightarrow> URL option) \<Rightarrow> string \<Rightarrow> InMemoryAuthProvider \<Rightarrow> OAuthClientInformationFull
     \<Rightarrow> AuthorizationParams \<Rightarrow> InMemoryAuthProvider \<times> (error + string)" where
  "authorize newURL code p cl ps =
     (let searchParams = searchParams_code code;
          p' = p\<lparr>codes := (codes p)(code \<mapsto> \<lparr>params = ps, client = cl\<rparr>)\<rparr>
      in case newURL (case redirect_uris cl of [] \<Rightarrow> ''undefined'' | u # _ \<Rightarrow> u) of
           None \<Rightarrow> (p', Inl InvalidURL)
         | Some targetUrl \<Rightarrow> (p', Inr (href (set_search searchParams targetUrl))))"

definition challengeForAuthorizationCode ::
  "InMemoryAuthProvider \<Rightarrow> OAuthClientInformationFull \<Rightarrow> string \<Rightarrow> error + string" where
  "challengeForAuthorizationCode p cl authorizationCode =
     (case codes p authorizationCode of
        None \<Rightarrow> Inl InvalidAuthorizationCode
      | Some codeData \<Rightarrow> Inr (codeChallenge (params codeData)))"

text \<open>
  \<^verbatim>\<open>exchangeAuthorizationCode\<close>. \<open>now\<close> is \<^verbatim>\<open>Date.now()\<close> (milliseconds), \<open>tok\<close> the
  fresh \<^verbatim>\<open>randomUUID()\<close> of the access token; \<open>codeVerifier\<close> is the optional third
  parameter, which the body never reads.
\<close>

definition exchangeAuthorizationCode ::
  "int \<Rightarrow> string \<Rightarrow> InMemoryAuthProvider \<Rightarrow> OAuthClientInformationFull \<Rightarrow> string
     \<Rightarrow> string option \<Rightarrow> InMemoryAuthProvider \<times> (error + OAuthTokens)" where
  "exchangeAuthorizationCode now tok p cl authorizationCode codeVerifier =
     (case codes p authorizationCode of
        None \<Rightarrow> (p, Inl InvalidAuthorizationCode)
      | Some codeData \<Rightarrow>
          if client_id (client codeData) \<noteq> client_id cl
          then (p, Inl (NotIssuedToThisClient (client_id (client codeData)) (client_id cl)))
          else
            let requested = (case scopes (params codeData) of None \<Rightarrow> [] | Some s \<Rightarrow> s);
                tokenData = \<lparr>token = tok, clientId = client_id cl, tscopes = requested,
                             expiresAt = Some (now + 3600000), ttype = ''access''\<rparr>
            in (p\<lparr>codes := (codes p)(authorizationCode := None),
                   tokens := (tokens p)(tok \<mapsto> tokenData)\<rparr>,
                Inr \<lparr>access_token = tok, token_type = ''Bearer'', expires_in = 3600,
                     scope = join '' '' requested\<rparr>))"

definition exchangeRefreshToken ::
  "InMemoryAuthProvider \<Rightarrow> OAuthClientInformationFull \<Rightarrow> string \<Rightarrow> string list option
     \<Rightarrow> InMemoryAuthProvider \<times> (error + OAuthTokens)" where
  "exchangeRefreshToken p cl refreshToken scps = (p, Inl NotImplemented)"

text \<open>\<^verbatim>\<open>verifyAccessToken\<close> only reads the provider. A missing \<^verbatim>\<open>expiresAt\<close> makes
  the comparison \<^verbatim>\<open>undefined < Date.now()\<close> false.\<close>

definition verifyAccessToken :: "int \<Rightarrow> InMemoryAuthProvider \<Rightarrow> string \<Rightarrow> error + AuthInfo" where
  "verifyAccessToken now p t =
     (case tokens p t of
        None \<Rightarrow> Inl InvalidOrExpiredToken
      | Some tokenData \<Rightarrow>
          if (case expiresAt tokenData of None \<Rightarrow> False | Some e \<Rightarrow> e < now)
             \<or> ttype tokenData = ''refresh''
          then Inl InvalidOrExpiredToken
          else Inr \<lparr>info_token = t, info_clientId = clientId tokenData,
                    info_scopes = tscopes tokenData,
                    info_expiresAt = map_option (\<lambda>e. e div 1000) (expiresAt tokenData)\<rparr>)"

text \<open>Calls on one provider object, and the provider after a sequence of them.\<close>

datatype request =
    RegisterClient OAuthClientInformationFull
  | GetClient string
  | Authorize string OAuthClientInformationFull AuthorizationParams
  | ChallengeFor OAuthClientInformationFull string
  | ExchangeCode int string OAuthClientInformationFull string "string option"
  | ExchangeRefresh OAuthClientInformationFull string "string list option"
  | VerifyToken int string

fun step :: "(string \<Rightarrow> URL option) \<Rightarrow> InMemoryAuthProvider \<Rightarrow> request \<Rightarrow> InMemoryAuthProvider" where
  "step newURL p (RegisterClient c) = fst (registerClient p c)"
| "step newURL p (GetClient cid) = p"
| "step newURL p (Authorize code c ps) = fst (authorize newURL code p c ps)"
| "step newURL p (ChallengeFor c code) = p"
| "step newURL p (ExchangeCode now tok c code v) = fst (exchangeAuthorizationCode now tok p c code v)"
| "step newURL p (ExchangeRefresh c rt scps) = fst (exchangeRefreshToken p c rt scps)"
| "step newURL p (VerifyToken now t) = p"

fun run :: "(string \<Rightarrow> URL option) \<Rightarrow> InMemoryAuthProvider \<Rightarrow> request list \<Rightarrow> InMemoryAuthProvider" where
  "run newURL p [] = p"
| "run newURL p (r # rs) = run newURL (step newURL p r) rs"

fun draws :: "string \<Rightarrow> request \<Rightarrow> bool" where
  "draws code (Authorize code' c ps) = (code' = code)"
| "draws code r = False"

fun redeems :: "string \<Rightarrow> string \<Rightarrow> request \<Rightarrow> bool" where
  "redeems code cid (ExchangeCode now tok c code' v) = (code' = code \<and> client_id c = cid)"
| "redeems code cid r = False"

section \<open>The authorization router\<close>

text \<open>What \<^verbatim>\<open>mcpAuthRouter\<close> reads of its provider: whether the two optional methods
  are defined.\<close>

record OAuthServerProvider =
  registerClient_defined :: bool
  revokeToken_defined :: bool

definition InMemoryAuthProvider_methods :: OAuthServerProvider where
  "InMemoryAuthProvider_methods = \<lparr>registerClient_defined = True, revokeToken_defined = False\<rparr>"

record ProtectedResourceOptions =
  serverUrl :: URL
  resourceName :: "string option"

text \<open>The per-route option objects are only handed on to the handlers and are left out.\<close>

record AuthRouterOptions =
  provider :: OAuthServerProvider
  issuerUrl :: URL
  baseUrl :: "URL option"
  serviceDocumentationUrl :: "URL option"
  scopesSupported :: "string list option"
  protectedResourceOptions :: "ProtectedResourceOptions option"

record ProtectedResourceRouterOptions =
  pr_issuerUrl :: URL
  pr_serverUrl :: URL
  pr_serviceDocumentationUrl :: "URL option"
  pr_scopesSupported :: "string list option"
  pr_resourceName :: "string option"

text \<open>The metadata documents; an optional field is \<open>None\<close> when the object holds
  \<^verbatim>\<open>undefined\<close> there, which the JSON document then does not contain.\<close>

record OAuthMetadata =
  issuer :: string
  service_documentation :: "string option"
  authorization_endpoint :: string
  response_types_supported :: "string list"
  code_challenge_methods_supported :: "string list"
  token_endpoint :: string
  token_endpoint_auth_methods_supported :: "string list"
  grant_types_supported :: "string list"
  scopes_supported :: "string list option"
  revocation_endpoint :: "string option"
  revocation_endpoint_auth_methods_supported :: "string list option"
  registration_endpoint :: "string option"

record OAuthProtectedResourceMetadata =
  resource :: string
  authorization_servers :: "string list"
  resource_scopes_supported :: "string list option"
  resource_name :: "string option"
  resource_documentation :: "string option"

text \<open>A router is the list of its mounted handlers, in the order of the
  \<^verbatim>\<open>router.use\<close> calls; the router mounted without a path contributes its own.\<close>

datatype handler =
    AuthorizationHandler
  | TokenHandler
  | MetadataHandler OAuthMetadata
  | ResourceMetadataHandler OAuthProtectedResourceMetadata
  | ClientRegistrationHandler
  | RevocationHandler

type_synonym router = "(string \<times> handler) list"

text \<open>\<^verbatim>\<open>new URL(path, base).href\<close>, with the platform's two-argument constructor
  \<open>newURL2\<close> (\<open>None\<close> when it throws).\<close>

definition endpoint_href :: "(string \<Rightarrow> URL \<Rightarrow> URL option) \<Rightarrow> string \<Rightarrow> URL \<Rightarrow> error + string" where
  "endpoint_href newURL2 p base =
     (case newURL2 p base of None \<Rightarrow> Inl InvalidURL | Some u \<Rightarrow> Inr (href u))"

text \<open>\<^verbatim>\<open>endpoint ? new URL(endpoint, base).href : undefined\<close>.\<close>

definition optional_endpoint ::
  "(string \<Rightarrow> URL \<Rightarrow> URL option) \<Rightarrow> string option \<Rightarrow> URL \<Rightarrow> error + string option" where
  "optional_endpoint newURL2 endpoint base =
     (case endpoint of
        None \<Rightarrow> Inr None
      | Some p \<Rightarrow> (case endpoint_href newURL2 p base of Inl e \<Rightarrow> Inl e | Inr s \<Rightarrow> Inr (Some s)))"

text \<open>
  The \<^verbatim>\<open>metadata\<close> object literal of \<^verbatim>\<open>mcpAuthRouter\<close>. \<open>metadata_object\<close> is the object,
  given the values of its four \<^verbatim>\<open>new URL(\<dots>).href\<close> properties and the local
  \<^verbatim>\<open>revocation_endpoint\<close>; \<open>auth_metadata\<close> evaluates those properties in the order
  written, any of which may throw.
\<close>

definition metadata_object ::
  "AuthRouterOptions \<Rightarrow> string option \<Rightarrow> string \<Rightarrow> string \<Rightarrow> string option \<Rightarrow> string option
     \<Rightarrow> OAuthMetadata" where
  "metadata_object options revocation authorization_url token_url revocation_url registration_url =
     \<lparr>issuer = href (issuerUrl options),
      service_documentation = map_option href (serviceDocumentationUrl options),
      authorization_endpoint = authorization_url,
      response_types_supported = [''code''],
      code_challenge_methods_supported = [''S256''],
      token_endpoint = token_url,
      token_endpoint_auth_methods_supported = [''client_secret_post''],
      grant_types_supported = [''authorization_code'', ''refresh_token''],
      scopes_supported = scopesSupported options,
      revocation_endpoint = revocation_url,
      revocation_endpoint_auth_methods_supported =
        (case revocation of None \<Rightarrow> None | Some r \<Rightarrow> Some [''client_secret_post'']),
      registration_endpoint = registration_url\<rparr>"

definition auth_metadata :: "(string \<Rightarrow> URL \<Rightarrow> URL option) \<Rightarrow> AuthRouterOptions \<Rightarrow> error + OAuthMetadata" where
  "auth_metadata newURL2 options =
     (let base = (case baseUrl options of None \<Rightarrow> issuerUrl options | Some b \<Rightarrow> b);
          registration = (if registerClient_defined (provider options) then Some ''/register'' else None);
          revocation = (if revokeToken_defined (provider options) then Some ''/revoke'' else None)
      in case endpoint_href newURL2 ''/authorize'' base of
           Inl e \<Rightarrow> Inl e
         | Inr authorization_url \<Rightarrow>
        (case endpoint_href newURL2 ''/token'' base of
           Inl e \<Rightarrow> Inl e
         | Inr token_url \<Rightarrow>
        (case optional_endpoint newURL2 revocation base of
           Inl e \<Rightarrow> Inl e
         | Inr revocation_url \<Rightarrow>
        (case optional_endpoint newURL2 registration base of
           Inl e \<Rightarrow> Inl e
         | Inr registration_url \<Rightarrow>
             Inr (metadata_object options revocation authorization_url token_url
                    revocation_url registration_url)))))"

definition mcpProtectedResourceRouter :: "ProtectedResourceRouterOptions \<Rightarrow> error + router" where
  "mcpProtectedResourceRouter options =
     (case checkIssuerUrl (pr_issuerUrl options) of
        Inl e \<Rightarrow> Inl e
      | Inr _ \<Rightarrow>
          Inr [(''/.well-known/oauth-protected-resource'',
                ResourceMetadataHandler
                  \<lparr>resource = href (pr_serverUrl options),
                   authorization_servers = [href (pr_issuerUrl options)],
                   resource_scopes_supported = pr_scopesSupported options,
                   resource_name = pr_resourceName options,
                   resource_documentation = map_option href (pr_serviceDocumentationUrl options)\<rparr>)])"

text \<open>\<^verbatim>\<open>mcpAuthRouter\<close>: the issuer is checked first; the router object is created
  only after the metadata has been built.\<close>

definition mcpAuthRouter :: "(string \<Rightarrow> URL \<Rightarrow> URL option) \<Rightarrow> AuthRouterOptions \<Rightarrow> error + router" where
  "mcpAuthRouter newURL2 options =
     (case checkIssuerUrl (issuerUrl options) of
        Inl e \<Rightarrow> Inl e
      | Inr _ \<Rightarrow>
        (case auth_metadata newURL2 options of
           Inl e \<Rightarrow> Inl e
         | Inr metadata \<Rightarrow>
        (case mcpProtectedResourceRouter
                \<lparr>pr_issuerUrl = issuerUrl options,
                 pr_serverUrl = (case protectedResourceOptions options of
                                   None \<Rightarrow> issuerUrl options | Some pro \<Rightarrow> serverUrl pro),
                 pr_serviceDocumentationUrl = serviceDocumentationUrl options,
                 pr_scopesSupported = scopesSupported options,
                 pr_resourceName = (case protectedResourceOptions options of
                                      None \<Rightarrow> None | Some pro \<Rightarrow> resourceName pro)\<rparr> of
           Inl e \<Rightarrow> Inl e
         | Inr resource_router \<Rightarrow>
             Inr ([(''/authorize'', AuthorizationHandler), (''/token'', TokenHandler),
                   (''/.well-known/oauth-authorization-server'', MetadataHandler metadata)]
                  @ resource_router
                  @ (if registerClient_defined (provider options)
                     then [(''/register'', ClientRegistrationHandler)] else [])
                  @ (if revokeToken_defined (provider options)
                     then [(''/revoke'', RevocationHandler)] else [])))))"

definition getOAuthProtectedResourceMetadataUrl :: "(string \<Rightarrow> URL \<Rightarrow> URL option) \<Rightarrow> URL \<Rightarrow> error + string" where
  "getOAuthProtectedResourceMetadataUrl newURL2 server =
     endpoint_href newURL2 ''/.well-known/oauth-protected-resource'' server"

section \<open>The URL constructor on plain inputs\<close>

text \<open>
  The theorems below hold for every behaviour of the platform's URL constructor. To
  run the model on concrete requests, here is the constructor on the inputs where the
  URL standard's parser has nothing to normalise: \<^verbatim>\<open>http\<close> and \<^verbatim>\<open>https\<close> URLs whose host
  is made of lower-case letters, dots and hyphens, without credentials or port, whose
  path segments are alphanumerics, hyphens and underscores, and whose query and
  fragment add \<^verbatim>\<open>=\<close> and \<^verbatim>\<open>&\<close> to those. Outside these inputs the two functions answer
  \<open>None\<close>, where the platform may well succeed.
\<close>

fun split_first :: "char \<Rightarrow> string \<Rightarrow> string \<times> string option" where
  "split_first c [] = ([], None)"
| "split_first c (x # xs) =
     (if x = c then ([], Some xs)
      else case split_first c xs of (a, b) \<Rightarrow> (x # a, b))"

fun split_all :: "char \<Rightarrow> string \<Rightarrow> string list" where
  "split_all c [] = [[]]"
| "split_all c (x # xs) =
     (if x = c then [] # split_all c xs
      else case split_all c xs of [] \<Rightarrow> [[x]] | s # ss \<Rightarrow> (x # s) # ss)"

definition plain_host :: "string \<Rightarrow> bool" where
  "plain_host h = (h \<noteq> [] \<and> list_all (\<lambda>c. ((97::nat) \<le> of_char c \<and> (of_char c :: nat) \<le> 122) \<or> c \<in> set ''.-'') h)"

definition plain_segment :: "string \<Rightarrow> bool" where
  "plain_segment s = list_all (\<lambda>c. is_alnum c \<or> c \<in> set ''-_'') s"

definition plain_query :: "string option \<Rightarrow> bool" where
  "plain_query q = (case q of None \<Rightarrow> True | Some s \<Rightarrow> list_all (\<lambda>c. is_alnum c \<or> c \<in> set ''-_=&'') s)"

definition plain_URL :: "string \<Rightarrow> string \<Rightarrow> string option \<Rightarrow> string option \<Rightarrow> URL option" where
  "plain_URL sch rest q f =
     (let h = takeWhile (\<lambda>c. c \<noteq> CHR ''/'') rest;
          p = dropWhile (\<lambda>c. c \<noteq> CHR ''/'') rest;
          segs = (case p of [] \<Rightarrow> [[]] | _ # r \<Rightarrow> split_all CHR ''/'' r)
      in if plain_host h \<and> list_all plain_segment segs \<and> plain_query q \<and> plain_query f
         then Some \<lparr>scheme = sch, username = [], password = [], host = Some h, port = None,
                    path = Segments segs, query = q, fragment = f\<rparr>
         else None)"

definition newURL_plain :: "string \<Rightarrow> URL option" where
  "newURL_plain s =
     (case split_first CHR ''#'' s of (s1, f) \<Rightarrow>
      case split_first CHR ''?'' s1 of (s2, q) \<Rightarrow>
        if take 8 s2 = ''https://'' then plain_URL ''https'' (drop 8 s2) q f
        else if take 7 s2 = ''http://'' then plain_URL ''http'' (drop 7 s2) q f
        else None)"

definition newURL2_plain :: "string \<Rightarrow> URL \<Rightarrow> URL option" where
  "newURL2_plain rel base =
     (case (rel, path base) of
        (c # seg, Segments _) \<Rightarrow>
          if c = CHR ''/'' \<and> seg \<noteq> [] \<and> list_all is_alnum seg \<and> scheme base \<noteq> ''file''
          then Some (base\<lparr>path := Segments [seg], query := None, fragment := None\<rparr>)
          else None
      | _ \<Rightarrow> None)"

section \<open>Concrete clients and requests\<close>

definition client_c1 :: OAuthClientInformationFull where
  "client_c1 = \<lparr>client_id = ''c1'', redirect_uris = [''https://app.example.com/cb'']\<rparr>"

definition client_c2 :: OAuthClientInformationFull where
  "client_c2 = \<lparr>client_id = ''c2'',
                 redirect_uris = [''https://app.example.com/cb'', ''https://app.example.com/alt'']\<rparr>"

definition params_of :: "string \<Rightarrow> AuthorizationParams" where
  "params_of challenge =
     \<lparr>state = None, scopes = Some [''read'', ''write''], codeChallenge = challenge,
      redirectUri = ''https://app.example.com/cb''\<rparr>"

text \<open>The provider after \<open>client_c1\<close> has been issued the code \<^verbatim>\<open>X\<close> for a challenge.\<close>

definition issued :: "string \<Rightarrow> InMemoryAuthProvider" where
  "issued challenge =
     fst (authorize newURL_plain ''X'' new_InMemoryAuthProvider client_c1 (params_of challenge))"

text \<open>The provider after \<open>client_c1\<close> has redeemed \<^verbatim>\<open>X\<close> at time 1400000 for the
  token \<^verbatim>\<open>T\<close>.\<close>

definition redeemed :: InMemoryAuthProvider where
  "redeemed =
     run newURL_plain new_InMemoryAuthProvider
       [Authorize ''X'' client_c1 (params_of ''challenge-A''),
        ExchangeCode 1400000 ''T'' client_c1 ''X'' (Some ''verifier1'')]"

definition client_c3 :: OAuthClientInformationFull where
  "client_c3 = \<lparr>client_id = ''c3'', redirect_uris = [''https://app.example.com/cb?tenant=a'']\<rparr>"

definition params_with :: "string option \<Rightarrow> string \<Rightarrow> AuthorizationParams" where
  "params_with st uri =
     \<lparr>state = st, scopes = None, codeChallenge = ''challenge-A'', redirectUri = uri\<rparr>"

definition issuer_http :: URL where
  "issuer_http =
     \<lparr>scheme = ''http'', username = [], password = [], host = Some ''auth.example.com'',
      port = None, path = Segments [[]], query = None, fragment = None\<rparr>"

definition issuer_https :: URL where
  "issuer_https = issuer_http\<lparr>scheme := ''https''\<rparr>"

text \<open>The parsed issuers \<^verbatim>\<open>https://auth.example.com/#\<close> and
  \<^verbatim>\<open>https://auth.example.com/?\<close>: the fragment, or the query, is there and empty.\<close>

definition issuer_empty_fragment :: URL where
  "issuer_empty_fragment = issuer_https\<lparr>fragment := Some []\<rparr>"

definition issuer_empty_query :: URL where
  "issuer_empty_query = issuer_https\<lparr>query := Some []\<rparr>"

definition router_options :: "URL \<Rightarrow> OAuthServerProvider \<Rightarrow> AuthRouterOptions" where
  "router_options iss prov =
     \<lparr>provider = prov, issuerUrl = iss, baseUrl = None, serviceDocumentationUrl = None,
      scopesSupported = None, protectedResourceOptions = None\<rparr>"

section \<open>Auxiliary notions\<close>

text \<open>The bytes a form-encoded string is made of; the \<^verbatim>\<open>search\<close> setter keeps them.\<close>

definition query_safe :: "char \<Rightarrow> bool" where
  "query_safe c = (is_alnum c \<or> c \<in> set ''*-._+%='')"

text \<open>The errors \<^verbatim>\<open>checkIssuerUrl\<close> throws.\<close>

definition issuer_error :: "error \<Rightarrow> bool" where
  "issuer_error e =
     (case e of IssuerMustBeHttps \<Rightarrow> True | IssuerHasFragment _ \<Rightarrow> True | IssuerHasQuery _ \<Rightarrow> True
      | _ \<Rightarrow> False)"

text \<open>
  The redirect target in the specification's words, to compare \<^verbatim>\<open>authorize\<close> with: the
  \<^verbatim>\<open>redirect_uri\<close> of the request, with \<^verbatim>\<open>code\<close>, and \<^verbatim>\<open>state\<close> when the request has one,
  appended as query parameters.
\<close>

definition append_query_param :: "string \<Rightarrow> string \<Rightarrow> URL \<Rightarrow> URL" where
  "append_query_param k v u =
     u\<lparr>query := Some ((case query u of None \<Rightarrow> [] | Some q \<Rightarrow> if q = [] then [] else q @ ''&'')
                      @ form_encode k @ ''='' @ form_encode v)\<rparr>"

definition spec_redirect_target ::
  "(string \<Rightarrow> URL option) \<Rightarrow> AuthorizationParams \<Rightarrow> string \<Rightarrow> string option" where
  "spec_redirect_target newURL ps code =
     map_option
       (\<lambda>u. href ((case state ps of None \<Rightarrow> id | Some s \<Rightarrow> append_query_param ''state'' s)
                   (append_query_param ''code'' code u)))
       (newURL (redirectUri ps))"

section \<open>The code store along a sequence of calls\<close>

lemma authorize_state:
  "fst (authorize newURL code p cl ps)
     = p\<lparr>codes := (codes p)(code \<mapsto> \<lparr>params = ps, client = cl\<rparr>)\<rparr>"
  by (simp add: authorize_def Let_def split: option.splits)


lemma authorize_codes:
  "codes (fst (authorize newURL code p cl ps)) code = Some \<lparr>params = ps, client = cl\<rparr>"
  by (simp add: authorize_def Let_def split: option.splits)

lemma issued_codes:
  "codes (issued ch) ''X'' = Some \<lparr>params = params_of ch, client = client_c1\<rparr>"
  unfolding issued_def by (rule authorize_codes)

lemma exchange_absent:
  "codes p code = None
     \<Longrightarrow> exchangeAuthorizationCode now tok p cl code v = (p, Inl InvalidAuthorizationCode)"
  by (simp add: exchangeAuthorizationCode_def)

lemma step_codes_Some:
  "codes p code = Some cd \<Longrightarrow> \<not> draws code r \<Longrightarrow> \<not> redeems code (client_id (client cd)) r
     \<Longrightarrow> codes (step newURL p r) code = Some cd"
  by (cases r)
     (auto simp: registerClient_def authorize_def exchangeAuthorizationCode_def
        exchangeRefreshToken_def Let_def split: option.splits)

lemma run_codes_Some:
  "codes p code = Some cd
     \<Longrightarrow> list_all (\<lambda>r. \<not> draws code r \<and> \<not> redeems code (client_id (client cd)) r) rs
     \<Longrightarrow> codes (run newURL p rs) code = Some cd"
  by (induction rs arbitrary: p) (simp_all add: step_codes_Some)

lemma step_codes_None:
  "codes p code = None \<Longrightarrow> \<not> draws code r \<Longrightarrow> codes (step newURL p r) code = None"
  by (cases r)
     (auto simp: registerClient_def authorize_def exchangeAuthorizationCode_def
        exchangeRefreshToken_def Let_def split: option.splits)

lemma run_codes_None:
  "codes p code = None \<Longrightarrow> list_all (\<lambda>r. \<not> draws code r) rs
     \<Longrightarrow> codes (run newURL p rs) code = None"
  by (induction rs arbitrary: p) (simp_all add: step_codes_None)

section \<open>Exchange of an authorization code\<close>

text \<open>
  Claim C1, as the code has it. \<^verbatim>\<open>exchangeAuthorizationCode\<close> never reads its
  \<^verbatim>\<open>_codeVerifier\<close> parameter: for every provider state, client and code, the result
  and the new state are the same whatever verifier is supplied, or none. The stored
  \<^verbatim>\<open>code_challenge\<close> is handed out by \<^verbatim>\<open>challengeForAuthorizationCode\<close>, so the S256
  comparison is the caller's.
\<close>

theorem exchange_ignores_code_verifier:
  "exchangeAuthorizationCode now tok p cl code v = exchangeAuthorizationCode now tok p cl code v'
   \<and> challengeForAuthorizationCode p cl code
       = (case codes p code of
            None \<Rightarrow> Inl InvalidAuthorizationCode
          | Some cd \<Rightarrow> Inr (codeChallenge (params cd)))"
  by (simp add: exchangeAuthorizationCode_def challengeForAuthorizationCode_def)

text \<open>
  Claim C1 as stated fails. The code \<^verbatim>\<open>X\<close> is issued to \<open>client_c1\<close> once with the stored
  challenge \<^verbatim>\<open>challenge-A\<close> and once with \<^verbatim>\<open>challenge-B\<close>, and exchanged with the verifier
  \<^verbatim>\<open>verifier1\<close>. The digest of \<^verbatim>\<open>verifier1\<close> differs from at least one of the two
  challenges, whatever the digest function is, yet both exchanges succeed: no digest
  function makes a mismatch fail.
\<close>

theorem exchange_verifier_mismatch_counterexample:
  "\<not> (\<exists>s256 :: string \<Rightarrow> string.
        (s256 ''verifier1'' \<noteq> ''challenge-A'' \<longrightarrow>
           (\<exists>e. snd (exchangeAuthorizationCode 1000 ''T'' (issued ''challenge-A'') client_c1 ''X''
                       (Some ''verifier1'')) = Inl e))
      \<and> (s256 ''verifier1'' \<noteq> ''challenge-B'' \<longrightarrow>
           (\<exists>e. snd (exchangeAuthorizationCode 1000 ''T'' (issued ''challenge-B'') client_c1 ''X''
                       (Some ''verifier1'')) = Inl e)))"
proof
  assume "\<exists>s256 :: string \<Rightarrow> string.
        (s256 ''verifier1'' \<noteq> ''challenge-A'' \<longrightarrow>
           (\<exists>e. snd (exchangeAuthorizationCode 1000 ''T'' (issued ''challenge-A'') client_c1 ''X''
                       (Some ''verifier1'')) = Inl e))
      \<and> (s256 ''verifier1'' \<noteq> ''challenge-B'' \<longrightarrow>
           (\<exists>e. snd (exchangeAuthorizationCode 1000 ''T'' (issued ''challenge-B'') client_c1 ''X''
                       (Some ''verifier1'')) = Inl e))"
  then obtain s256 :: "string \<Rightarrow> string" where
    a: "s256 ''verifier1'' \<noteq> ''challenge-A'' \<longrightarrow>
           (\<exists>e. snd (exchangeAuthorizationCode 1000 ''T'' (issued ''challenge-A'') client_c1 ''X''
                       (Some ''verifier1'')) = Inl e)"
    and b: "s256 ''verifier1'' \<noteq> ''challenge-B'' \<longrightarrow>
           (\<exists>e. snd (exchangeAuthorizationCode 1000 ''T'' (issued ''challenge-B'') client_c1 ''X''
                       (Some ''verifier1'')) = Inl e)"
    by blast
  have ok: "\<exists>toks. snd (exchangeAuthorizationCode 1000 ''T'' (issued ch) client_c1 ''X''
                          (Some ''verifier1'')) = Inr toks" for ch
    using issued_codes [of ch] by (simp add: exchangeAuthorizationCode_def Let_def)
  have "s256 ''verifier1'' \<noteq> ''challenge-A'' \<or> s256 ''verifier1'' \<noteq> ''challenge-B''"
    by auto
  then show False
    using a b ok [of "''challenge-A''"] ok [of "''challenge-B''"] by auto
qed

text \<open>
  Claim C3. After \<^verbatim>\<open>authorize\<close> has stored a code, and after any calls that neither
  draw the same code again nor redeem it for the issuing client, an exchange by the
  issuing client succeeds; it deletes the code record; and after any further calls
  that do not draw the same code again, an exchange of that code by any client, with
  any verifier, fails with \<^verbatim>\<open>Invalid authorization code\<close> (the specification's
  \<^verbatim>\<open>InvalidGrant\<close>) and leaves the provider as it is.
\<close>

theorem code_exchanged_at_most_once:
  assumes p1: "p1 = run newURL (fst (authorize newURL code p0 cl ps)) rs"
    and quiet: "list_all (\<lambda>r. \<not> draws code r \<and> \<not> redeems code (client_id cl) r) rs"
    and same: "client_id cl' = client_id cl"
    and later: "list_all (\<lambda>r. \<not> draws code r) rs'"
  shows "\<exists>p2 toks.
           exchangeAuthorizationCode now tok p1 cl' code v = (p2, Inr toks)
           \<and> codes p2 code = None
           \<and> exchangeAuthorizationCode now' tok' (run newURL p2 rs') cl'' code v'
               = (run newURL p2 rs', Inl InvalidAuthorizationCode)"
proof -
  let ?cd = "\<lparr>params = ps, client = cl\<rparr>"
  have stored: "codes p1 code = Some ?cd"
    unfolding p1 using quiet by (intro run_codes_Some authorize_codes) simp
  obtain p2 toks where ex: "exchangeAuthorizationCode now tok p1 cl' code v = (p2, Inr toks)"
    and gone: "codes p2 code = None"
    using stored same by (simp add: exchangeAuthorizationCode_def Let_def)
  from gone later have "codes (run newURL p2 rs') code = None"
    by (rule run_codes_None)
  then have "exchangeAuthorizationCode now' tok' (run newURL p2 rs') cl'' code v'
               = (run newURL p2 rs', Inl InvalidAuthorizationCode)"
    by (rule exchange_absent)
  with ex gone show ?thesis by blast
qed

text \<open>
  Claim C3 at a concrete run: \<^verbatim>\<open>X\<close> is issued to \<open>client_c1\<close>; \<open>client_c2\<close> tries it and a
  token is looked up; \<open>client_c1\<close> redeems it; another code is issued and redeemed;
  then \<open>client_c1\<close> presents \<^verbatim>\<open>X\<close> again.
\<close>

theorem code_exchanged_at_most_once_witness:
  "\<exists>p2 toks.
     exchangeAuthorizationCode 1000 ''T''
         (run newURL_plain
            (fst (authorize newURL_plain ''X'' new_InMemoryAuthProvider client_c1 (params_of ''challenge-A'')))
            [ExchangeCode 500 ''S'' client_c2 ''X'' None, VerifyToken 600 ''S''])
         client_c1 ''X'' (Some ''verifier1'') = (p2, Inr toks)
     \<and> codes p2 ''X'' = None
     \<and> exchangeAuthorizationCode 3000 ''V''
           (run newURL_plain p2
              [Authorize ''Y'' client_c2 (params_of ''challenge-B''),
               ExchangeCode 2000 ''U'' client_c2 ''Y'' None])
           client_c1 ''X'' (Some ''verifier1'')
         = (run newURL_plain p2
              [Authorize ''Y'' client_c2 (params_of ''challenge-B''),
               ExchangeCode 2000 ''U'' client_c2 ''Y'' None],
            Inl InvalidAuthorizationCode)"
proof -
  have quiet: "list_all (\<lambda>r. \<not> draws ''X'' r \<and> \<not> redeems ''X'' (client_id client_c1) r)
                 [ExchangeCode 500 ''S'' client_c2 ''X'' None, VerifyToken 600 ''S'']"
    by (simp add: client_c1_def client_c2_def)
  have later: "list_all (\<lambda>r. \<not> draws ''X'' r)
                 [Authorize ''Y'' client_c2 (params_of ''challenge-B''),
                  ExchangeCode 2000 ''U'' client_c2 ''Y'' None]"
    by simp
  show ?thesis
    by (rule code_exchanged_at_most_once [OF refl quiet refl later])
qed

text \<open>
  Claim C5. When the code is stored and the presenting client's \<^verbatim>\<open>client_id\<close> differs
  from the one recorded with it, \<^verbatim>\<open>exchangeAuthorizationCode\<close> fails with the error
  \<^verbatim>\<open>Authorization code was not issued to this client\<close> (the specification's
  \<^verbatim>\<open>InvalidGrant\<close>) for every verifier, and returns the provider unchanged.
\<close>

theorem exchange_by_other_client_fails:
  "codes p code = Some cd \<Longrightarrow> client_id cl \<noteq> client_id (client cd)
     \<Longrightarrow> exchangeAuthorizationCode now tok p cl code v
           = (p, Inl (NotIssuedToThisClient (client_id (client cd)) (client_id cl)))"
  by (simp add: exchangeAuthorizationCode_def)

text \<open>Claim C5 at a concrete input: \<open>client_c2\<close> presents the code issued to \<open>client_c1\<close>.\<close>

theorem exchange_by_other_client_fails_witness:
  "exchangeAuthorizationCode 1000 ''T'' (issued ''challenge-A'') client_c2 ''X'' (Some ''verifier1'')
     = (issued ''challenge-A'', Inl (NotIssuedToThisClient ''c1'' ''c2''))"
proof -
  have differ: "client_id client_c2 \<noteq> client_id (client \<lparr>params = params_of ''challenge-A'', client = client_c1\<rparr>)"
    by (simp add: client_c1_def client_c2_def)
  show ?thesis
    using exchange_by_other_client_fails [OF issued_codes differ, of 1000 "''T''" "Some ''verifier1''"]
    by (simp add: client_c1_def client_c2_def)
qed

text \<open>
  Claim C6. A successful \<^verbatim>\<open>exchangeAuthorizationCode\<close> adds exactly the token \<open>tok\<close> to
  the token store, with type \<^verbatim>\<open>access\<close>, the scopes requested with the code (none when
  the request had none) and \<^verbatim>\<open>expiresAt\<close> 3600 seconds after \<open>now\<close> (in milliseconds),
  and returns \<^verbatim>\<open>token_type\<close> \<^verbatim>\<open>Bearer\<close>, \<^verbatim>\<open>expires_in\<close> 3600 and the scopes joined by one
  space.
\<close>

theorem exchange_mints_access_token:
  "exchangeAuthorizationCode now tok p cl code v = (p', Inr r)
     \<Longrightarrow> \<exists>cd requested.
           codes p code = Some cd
         \<and> requested = (case scopes (params cd) of None \<Rightarrow> [] | Some s \<Rightarrow> s)
         \<and> tokens p' = (tokens p)(tok \<mapsto> \<lparr>token = tok, clientId = client_id cl, tscopes = requested,
                                          expiresAt = Some (now + 3600 * 1000), ttype = ''access''\<rparr>)
         \<and> r = \<lparr>access_token = tok, token_type = ''Bearer'', expires_in = 3600,
                 scope = join '' '' requested\<rparr>"
  by (auto simp: exchangeAuthorizationCode_def Let_def split: option.splits if_splits)

text \<open>Claim C6 at a concrete input: \<open>client_c1\<close> redeems \<^verbatim>\<open>X\<close>, requested with the scopes
  \<^verbatim>\<open>read\<close> and \<^verbatim>\<open>write\<close>, at time 1000.\<close>

theorem exchange_mints_access_token_witness:
  "\<exists>p' r. exchangeAuthorizationCode 1000 ''T'' (issued ''challenge-A'') client_c1 ''X''
             (Some ''verifier1'') = (p', Inr r)
     \<and> tokens p' ''T'' = Some \<lparr>token = ''T'', clientId = ''c1'', tscopes = [''read'', ''write''],
                               expiresAt = Some 3601000, ttype = ''access''\<rparr>
     \<and> r = \<lparr>access_token = ''T'', token_type = ''Bearer'', expires_in = 3600,
             scope = ''read write''\<rparr>"
proof -
  obtain p' r where ex: "exchangeAuthorizationCode 1000 ''T'' (issued ''challenge-A'') client_c1 ''X''
                           (Some ''verifier1'') = (p', Inr r)"
    using issued_codes [of "''challenge-A''"] by (simp add: exchangeAuthorizationCode_def Let_def)
  from exchange_mints_access_token [OF ex] issued_codes [of "''challenge-A''"]
  have "tokens p' ''T'' = Some \<lparr>token = ''T'', clientId = ''c1'', tscopes = [''read'', ''write''],
                               expiresAt = Some 3601000, ttype = ''access''\<rparr>
     \<and> r = \<lparr>access_token = ''T'', token_type = ''Bearer'', expires_in = 3600,
             scope = ''read write''\<rparr>"
    by (auto simp: params_of_def client_c1_def)
  with ex show ?thesis by blast
qed

section \<open>Refresh tokens\<close>

text \<open>
  Claim C7. For every client, refresh token and scopes, \<^verbatim>\<open>exchangeRefreshToken\<close> fails
  with the error \<^verbatim>\<open>Not implemented for example demo\<close> and leaves the code store and the
  token store as they were.
\<close>

theorem exchangeRefreshToken_not_implemented:
  "snd (exchangeRefreshToken p cl refreshToken scps) = Inl NotImplemented
   \<and> codes (fst (exchangeRefreshToken p cl refreshToken scps)) = codes p
   \<and> tokens (fst (exchangeRefreshToken p cl refreshToken scps)) = tokens p"
  by (simp add: exchangeRefreshToken_def)

section \<open>Verification of access tokens\<close>

lemma redeemed_tokens:
  "tokens redeemed = [''T'' \<mapsto> \<lparr>token = ''T'', clientId = ''c1'', tscopes = [''read'', ''write''],
                               expiresAt = Some 5000000, ttype = ''access''\<rparr>]"
  by (simp add: redeemed_def authorize_state exchangeAuthorizationCode_def Let_def
        new_InMemoryAuthProvider_def client_c1_def params_of_def)

lemma step_tokens_inv:
  "(\<forall>t td. tokens p t = Some td \<longrightarrow> ttype td = ''access'' \<and> expiresAt td \<noteq> None)
     \<Longrightarrow> tokens (step newURL p r) t = Some td \<Longrightarrow> ttype td = ''access'' \<and> expiresAt td \<noteq> None"
  by (cases r)
     (auto simp: registerClient_def authorize_def exchangeAuthorizationCode_def
        exchangeRefreshToken_def Let_def split: option.splits if_splits)

lemma run_tokens_inv:
  "(\<forall>t td. tokens p t = Some td \<longrightarrow> ttype td = ''access'' \<and> expiresAt td \<noteq> None)
     \<Longrightarrow> tokens (run newURL p rs) t = Some td \<Longrightarrow> ttype td = ''access'' \<and> expiresAt td \<noteq> None"
proof (induction rs arbitrary: p)
  case Nil
  then show ?case by simp
next
  case (Cons r rs)
  have "\<forall>t td. tokens (step newURL p r) t = Some td \<longrightarrow> ttype td = ''access'' \<and> expiresAt td \<noteq> None"
    using step_tokens_inv [OF Cons.prems(1)] by blast
  from Cons.IH [OF this] Cons.prems(2) show ?case by simp
qed

lemma step_tokens_same:
  "(\<nexists>now tok c code v. r = ExchangeCode now tok c code v) \<Longrightarrow> tokens (step newURL p r) = tokens p"
  by (cases r)
     (auto simp: registerClient_def authorize_def exchangeRefreshToken_def Let_def
        split: option.splits)

text \<open>
  Claim C2, as the code has it. \<^verbatim>\<open>verifyAccessToken\<close> succeeds if and only if the token
  is in the token store, its type is not \<^verbatim>\<open>refresh\<close> and \<open>now\<close> is not past its
  \<^verbatim>\<open>expiresAt\<close>: the comparison is \<^verbatim>\<open>expiresAt < Date.now()\<close>, so at \<open>now = expiresAt\<close> the
  token is still accepted. In every state the provider reaches from its creation
  this reads: the token is stored, its type is \<^verbatim>\<open>access\<close> and \<open>now \<le> expiresAt\<close>. Every
  failure is the error \<^verbatim>\<open>Invalid or expired token\<close> (the specification's
  \<^verbatim>\<open>InvalidToken\<close>).
\<close>

theorem verifyAccessToken_succeeds_iff:
  "((\<exists>info. verifyAccessToken now p t = Inr info)
      \<longleftrightarrow> (\<exists>td. tokens p t = Some td \<and> ttype td \<noteq> ''refresh''
                \<and> (case expiresAt td of None \<Rightarrow> True | Some e \<Rightarrow> now \<le> e)))
   \<and> ((\<exists>info. verifyAccessToken now (run newURL new_InMemoryAuthProvider rs) t = Inr info)
      \<longleftrightarrow> (\<exists>td e. tokens (run newURL new_InMemoryAuthProvider rs) t = Some td
                  \<and> ttype td = ''access'' \<and> expiresAt td = Some e \<and> now \<le> e))
   \<and> ((\<nexists>info. verifyAccessToken now p t = Inr info)
      \<longleftrightarrow> verifyAccessToken now p t = Inl InvalidOrExpiredToken)"
proof -
  let ?P = "run newURL new_InMemoryAuthProvider rs"
  have gen: "(\<exists>info. verifyAccessToken now q t = Inr info)
      \<longleftrightarrow> (\<exists>td. tokens q t = Some td \<and> ttype td \<noteq> ''refresh''
                \<and> (case expiresAt td of None \<Rightarrow> True | Some e \<Rightarrow> now \<le> e))" for q
    by (auto simp: verifyAccessToken_def split: option.splits)
  have inv: "ttype td = ''access'' \<and> expiresAt td \<noteq> None" if "tokens ?P t = Some td" for td
    using run_tokens_inv [of new_InMemoryAuthProvider newURL rs t td] that
    by (simp add: new_InMemoryAuthProvider_def)
  have reach: "(\<exists>info. verifyAccessToken now ?P t = Inr info)
      \<longleftrightarrow> (\<exists>td e. tokens ?P t = Some td \<and> ttype td = ''access'' \<and> expiresAt td = Some e \<and> now \<le> e)"
    unfolding gen [of ?P] using inv by (auto split: option.splits)
  have err: "(\<nexists>info. verifyAccessToken now p t = Inr info)
      \<longleftrightarrow> verifyAccessToken now p t = Inl InvalidOrExpiredToken"
    by (auto simp: verifyAccessToken_def split: option.splits)
  show ?thesis using gen [of p] reach err by blast
qed

text \<open>
  Claim C2 as stated fails at the boundary. The token \<^verbatim>\<open>T\<close> minted at time 1400000 has
  \<^verbatim>\<open>expiresAt\<close> 5000000; verified at \<open>now = 5000000\<close>, exactly its expiry, it is accepted
  (the returned \<^verbatim>\<open>expiresAt\<close> is in seconds).
\<close>

theorem verifyAccessToken_at_expiry_counterexample:
  "map_option expiresAt (tokens redeemed ''T'') = Some (Some 5000000)
   \<and> verifyAccessToken 5000000 redeemed ''T''
       = Inr \<lparr>info_token = ''T'', info_clientId = ''c1'', info_scopes = [''read'', ''write''],
              info_expiresAt = Some 5000\<rparr>"
  by (simp add: redeemed_tokens verifyAccessToken_def)

text \<open>
  Claim C10. In every state the provider reaches from its creation, by any sequence
  of calls, every stored token has type \<^verbatim>\<open>access\<close> and an \<^verbatim>\<open>expiresAt\<close>, so none has type
  \<^verbatim>\<open>refresh\<close>: \<^verbatim>\<open>verifyAccessToken\<close> fails there only for a token that is absent or past
  its expiry. Every call other than \<^verbatim>\<open>exchangeAuthorizationCode\<close> leaves the token store
  as it is.
\<close>

theorem stored_tokens_are_access_tokens:
  "(\<forall>t td. tokens (run newURL new_InMemoryAuthProvider rs) t = Some td
        \<longrightarrow> ttype td = ''access'' \<and> (\<exists>e. expiresAt td = Some e) \<and> ttype td \<noteq> ''refresh'')
   \<and> (\<forall>now t err. verifyAccessToken now (run newURL new_InMemoryAuthProvider rs) t = Inl err
        \<longrightarrow> tokens (run newURL new_InMemoryAuthProvider rs) t = None
            \<or> (\<exists>td e. tokens (run newURL new_InMemoryAuthProvider rs) t = Some td
                       \<and> expiresAt td = Some e \<and> e < now))
   \<and> (\<forall>p r. (\<nexists>now tok c code v. r = ExchangeCode now tok c code v)
        \<longrightarrow> tokens (step newURL p r) = tokens p)"
proof -
  let ?P = "run newURL new_InMemoryAuthProvider rs"
  have inv: "ttype td = ''access'' \<and> expiresAt td \<noteq> None" if "tokens ?P t = Some td" for t td
    using run_tokens_inv [of new_InMemoryAuthProvider newURL rs t td] that
    by (simp add: new_InMemoryAuthProvider_def)
  have a: "\<forall>t td. tokens ?P t = Some td
        \<longrightarrow> ttype td = ''access'' \<and> (\<exists>e. expiresAt td = Some e) \<and> ttype td \<noteq> ''refresh''"
    using inv by auto
  have b: "\<forall>now t err. verifyAccessToken now ?P t = Inl err
        \<longrightarrow> tokens ?P t = None
            \<or> (\<exists>td e. tokens ?P t = Some td \<and> expiresAt td = Some e \<and> e < now)"
    using a by (auto simp: verifyAccessToken_def split: option.splits if_splits)
  show ?thesis using a b step_tokens_same by blast
qed

text \<open>Claim C10 at a concrete run: after \<^verbatim>\<open>X\<close> has been redeemed for \<^verbatim>\<open>T\<close>, the stored
  token is an access token with an expiry, it is rejected once expired, and looking it
  up leaves the token store as it is.\<close>

theorem stored_tokens_are_access_tokens_witness:
  "(\<exists>td e. tokens redeemed ''T'' = Some td \<and> ttype td = ''access'' \<and> expiresAt td = Some e)
   \<and> verifyAccessToken 5000001 redeemed ''T'' = Inl InvalidOrExpiredToken
   \<and> tokens (step newURL_plain redeemed (VerifyToken 5000001 ''T'')) = tokens redeemed"
  using stored_tokens_are_access_tokens
          [of newURL_plain "[Authorize ''X'' client_c1 (params_of ''challenge-A''),
                             ExchangeCode 1400000 ''T'' client_c1 ''X'' (Some ''verifier1'')]"]
  by (simp add: redeemed_def [symmetric] redeemed_tokens verifyAccessToken_def)

section \<open>The redirect of \<^verbatim>\<open>authorize\<close>\<close>

lemma hex_digit_alnum: "is_alnum (hex_digit n)"
proof -
  have "list_all is_alnum ''0123456789ABCDEF''"
    by (simp add: is_alnum_def)
  moreover have "n mod 16 < length ''0123456789ABCDEF''"
    by simp
  ultimately show ?thesis
    unfolding hex_digit_def list_all_length by blast
qed

lemma form_encode_byte_safe: "list_all query_safe (form_encode_byte c)"
  by (simp add: form_encode_byte_def percent_encode_def query_safe_def hex_digit_alnum)

lemma form_encode_safe: "list_all query_safe (form_encode s)"
  by (induction s) (simp_all add: form_encode_def form_encode_byte_safe)

lemma query_safe_kept:
  "query_safe c \<Longrightarrow> c \<notin> set [CHR 0x09, CHR 0x0A, CHR 0x0D] \<and> \<not> in_query_encode_set b c"
  by (auto simp: query_safe_def is_alnum_def in_query_encode_set_def Let_def)

lemma query_encode_safe: "list_all query_safe s \<Longrightarrow> query_encode b s = s"
proof (induction s)
  case Nil
  then show ?case by (simp add: query_encode_def)
next
  case (Cons c s)
  then have "query_safe c" and "query_encode b s = s" by simp_all
  then show ?case
    using query_safe_kept [of c b] by (simp add: query_encode_def)
qed

lemma searchParams_code_eq: "searchParams_code code = ''code='' @ form_encode code"
  by (simp add: searchParams_code_def form_encode_def form_encode_byte_def is_alnum_def)

lemma set_search_code:
  "set_search (searchParams_code code) u = u\<lparr>query := Some (''code='' @ form_encode code)\<rparr>"
proof -
  have "list_all query_safe (''code='' @ form_encode code)"
    using form_encode_safe [of code] by (simp add: query_safe_def is_alnum_def)
  then have "query_encode (is_special u) (''code='' @ form_encode code) = ''code='' @ form_encode code"
    by (rule query_encode_safe)
  then show ?thesis
    by (simp add: set_search_def searchParams_code_eq)
qed

lemma form_encode_uuid:
  "list_all (\<lambda>c. is_alnum c \<or> c = CHR ''-'') code \<Longrightarrow> form_encode code = code"
  by (induction code) (auto simp: form_encode_def form_encode_byte_def is_alnum_def)

text \<open>
  Claim C4, as the code has it. When the client's first registered redirect URI
  (\<^verbatim>\<open>client.redirect_uris[0]\<close>) is a URL, \<^verbatim>\<open>authorize\<close> redirects to that URL with its
  query set to the one parameter \<^verbatim>\<open>code\<close>, form-encoded (a code made of alphanumerics
  and hyphens, as a UUID is, is unchanged by the encoding). Neither the
  \<^verbatim>\<open>redirect_uri\<close> nor the \<^verbatim>\<open>state\<close> of the request enters the target. The only change
  to the provider is the record of the client and the request stored under the new
  code.
\<close>

theorem authorize_redirects_to_first_registered_uri:
  assumes "newURL (case redirect_uris cl of [] \<Rightarrow> ''undefined'' | u # _ \<Rightarrow> u) = Some target"
  shows "authorize newURL code p cl ps
           = (p\<lparr>codes := (codes p)(code \<mapsto> \<lparr>params = ps, client = cl\<rparr>)\<rparr>,
              Inr (href (target\<lparr>query := Some (''code='' @ form_encode code)\<rparr>)))
         \<and> (list_all (\<lambda>c. is_alnum c \<or> c = CHR ''-'') code \<longrightarrow> form_encode code = code)"
  using assms by (simp add: authorize_def Let_def set_search_code form_encode_uuid)

text \<open>Claim C4, as the code has it, at a concrete input: \<open>client_c1\<close> authorizes a
  request that carries the state \<^verbatim>\<open>s1\<close>.\<close>

theorem authorize_redirects_to_first_registered_uri_witness:
  "authorize newURL_plain ''X'' new_InMemoryAuthProvider client_c1
       (params_with (Some ''s1'') ''https://app.example.com/cb'')
     = (new_InMemoryAuthProvider
          \<lparr>codes := [''X'' \<mapsto> \<lparr>params = params_with (Some ''s1'') ''https://app.example.com/cb'',
                               client = client_c1\<rparr>]\<rparr>,
        Inr ''https://app.example.com/cb?code=X'')
   \<and> form_encode ''X'' = ''X''"
proof -
  have parsed: "newURL_plain (case redirect_uris client_c1 of [] \<Rightarrow> ''undefined'' | u # _ \<Rightarrow> u)
      = Some \<lparr>scheme = ''https'', username = [], password = [], host = Some ''app.example.com'',
               port = None, path = Segments [''cb''], query = None, fragment = None\<rparr>"
    by code_simp
  have uuid: "list_all (\<lambda>c. is_alnum c \<or> c = CHR ''-'') ''X''"
    by (simp add: is_alnum_def)
  have enc: "form_encode ''X'' = ''X''"
    by code_simp
  show ?thesis
    using authorize_redirects_to_first_registered_uri
            [where newURL = newURL_plain and cl = client_c1 and code = "''X''"
               and p = new_InMemoryAuthProvider
               and ps = "params_with (Some ''s1'') ''https://app.example.com/cb''", OF parsed] uuid
    by (simp add: enc href_def pathname_def new_InMemoryAuthProvider_def)
qed

text \<open>
  Claim C4 as stated fails, on three requests for the code \<^verbatim>\<open>X\<close>, each shown with the
  target the code produces and the target the claim describes: a request with the
  state \<^verbatim>\<open>s1\<close> (the target carries no state); a request of \<open>client_c2\<close> for its second
  registered redirect URI (the target is the first one); and a client whose registered
  redirect URI has a query (the query is replaced, not appended to).
\<close>

theorem authorize_redirect_target_counterexample:
  "snd (authorize newURL_plain ''X'' new_InMemoryAuthProvider client_c1
          (params_with (Some ''s1'') ''https://app.example.com/cb''))
     = Inr ''https://app.example.com/cb?code=X''
   \<and> spec_redirect_target newURL_plain (params_with (Some ''s1'') ''https://app.example.com/cb'') ''X''
     = Some ''https://app.example.com/cb?code=X&state=s1''
   \<and> snd (authorize newURL_plain ''X'' new_InMemoryAuthProvider client_c2
          (params_with None ''https://app.example.com/alt''))
     = Inr ''https://app.example.com/cb?code=X''
   \<and> spec_redirect_target newURL_plain (params_with None ''https://app.example.com/alt'') ''X''
     = Some ''https://app.example.com/alt?code=X''
   \<and> snd (authorize newURL_plain ''X'' new_InMemoryAuthProvider client_c3
          (params_with None ''https://app.example.com/cb?tenant=a''))
     = Inr ''https://app.example.com/cb?code=X''
   \<and> spec_redirect_target newURL_plain (params_with None ''https://app.example.com/cb?tenant=a'') ''X''
     = Some ''https://app.example.com/cb?tenant=a&code=X''"
  by code_simp

section \<open>Issuer validation and the metadata document\<close>

lemma href_nonempty: "href u \<noteq> []"
  by (simp add: href_def)

lemma endpoint_href_Inl: "endpoint_href newURL2 pth base = Inl e \<Longrightarrow> e = InvalidURL"
  by (simp add: endpoint_href_def split: option.splits)

lemma endpoint_href_Inr: "endpoint_href newURL2 pth base = Inr s \<Longrightarrow> s \<noteq> []"
  by (auto simp: endpoint_href_def href_nonempty split: option.splits)

lemma optional_endpoint_Inl: "optional_endpoint newURL2 ep base = Inl e \<Longrightarrow> e = InvalidURL"
  by (auto simp: optional_endpoint_def split: option.splits sum.splits dest: endpoint_href_Inl)

lemma optional_endpoint_Inr:
  "optional_endpoint newURL2 ep base = Inr v \<Longrightarrow> (v \<noteq> None) = (ep \<noteq> None) \<and> v \<noteq> Some []"
  by (auto simp: optional_endpoint_def split: option.splits sum.splits dest: endpoint_href_Inr)

lemma auth_metadata_Inl: "auth_metadata newURL2 options = Inl e \<Longrightarrow> e = InvalidURL"
  by (auto simp: auth_metadata_def Let_def split: sum.splits
        dest: endpoint_href_Inl optional_endpoint_Inl)

lemma auth_metadata_Inr:
  assumes "auth_metadata newURL2 options = Inr m"
  shows "(revocation_endpoint m \<noteq> None) = revokeToken_defined (provider options)
   \<and> (revocation_endpoint_auth_methods_supported m \<noteq> None) = revokeToken_defined (provider options)
   \<and> (registration_endpoint m \<noteq> None) = registerClient_defined (provider options)
   \<and> revocation_endpoint m \<noteq> Some [] \<and> registration_endpoint m \<noteq> Some []
   \<and> revocation_endpoint_auth_methods_supported m \<noteq> Some []"
proof -
  let ?base = "case baseUrl options of None \<Rightarrow> issuerUrl options | Some b \<Rightarrow> b"
  let ?rev = "if revokeToken_defined (provider options) then Some ''/revoke'' else None"
  let ?reg = "if registerClient_defined (provider options) then Some ''/register'' else None"
  from assms obtain a t rv rg
    where rv: "optional_endpoint newURL2 ?rev ?base = Inr rv"
      and rg: "optional_endpoint newURL2 ?reg ?base = Inr rg"
      and m: "m = metadata_object options ?rev a t rv rg"
    unfolding auth_metadata_def Let_def by (auto split: sum.splits)
  from optional_endpoint_Inr [OF rv] optional_endpoint_Inr [OF rg] show ?thesis
    unfolding m by (simp add: metadata_object_def)
qed


lemma checkIssuerUrl_Inl_iff:
  "(\<exists>e. checkIssuerUrl u = Inl e)
     \<longleftrightarrow> (protocol u \<noteq> ''https:'' \<and> hostname u \<noteq> ''localhost'' \<and> hostname u \<noteq> ''127.0.0.1'')
         \<or> hash u \<noteq> [] \<or> search u \<noteq> []"
  by (simp add: checkIssuerUrl_def)

lemma checkIssuerUrl_issuer_error: "checkIssuerUrl u = Inl e \<Longrightarrow> issuer_error e"
  by (auto simp: checkIssuerUrl_def issuer_error_def split: if_splits)

lemma mcpAuthRouter_checked:
  "checkIssuerUrl (issuerUrl options) = Inr () \<Longrightarrow> mcpAuthRouter newURL2 options = Inl e
     \<Longrightarrow> e = InvalidURL"
  by (auto simp: mcpAuthRouter_def mcpProtectedResourceRouter_def split: sum.splits
        dest: auth_metadata_Inl)

lemma router_of_InMemoryAuthProvider:
  "mcpAuthRouter newURL2_plain (router_options issuer_https InMemoryAuthProvider_methods)
     = Inr [(''/authorize'', AuthorizationHandler), (''/token'', TokenHandler),
            (''/.well-known/oauth-authorization-server'',
             MetadataHandler
               \<lparr>issuer = ''https://auth.example.com/'',
                service_documentation = None,
                authorization_endpoint = ''https://auth.example.com/authorize'',
                response_types_supported = [''code''],
                code_challenge_methods_supported = [''S256''],
                token_endpoint = ''https://auth.example.com/token'',
                token_endpoint_auth_methods_supported = [''client_secret_post''],
                grant_types_supported = [''authorization_code'', ''refresh_token''],
                scopes_supported = None, revocation_endpoint = None,
                revocation_endpoint_auth_methods_supported = None,
                registration_endpoint = Some ''https://auth.example.com/register''\<rparr>),
            (''/.well-known/oauth-protected-resource'',
             ResourceMetadataHandler
               \<lparr>resource = ''https://auth.example.com/'',
                authorization_servers = [''https://auth.example.com/''],
                resource_scopes_supported = None, resource_name = None,
                resource_documentation = None\<rparr>),
            (''/register'', ClientRegistrationHandler)]"
  by code_simp

text \<open>
  What the issuer check decides. \<^verbatim>\<open>mcpAuthRouter\<close> fails with one of the errors of
  \<^verbatim>\<open>checkIssuerUrl\<close> if and only if the issuer's protocol is not \<^verbatim>\<open>https:\<close> while its
  hostname is neither \<^verbatim>\<open>localhost\<close> nor \<^verbatim>\<open>127.0.0.1\<close>, or its \<^verbatim>\<open>hash\<close> is not empty, or
  its \<^verbatim>\<open>search\<close> is not empty; both getters are empty for a missing and for an empty
  component. The check is the first thing done: when it fails, its error is the result,
  whatever the other options and the URL constructor are, and no router has been
  created.
\<close>

theorem issuer_checked_before_routes:
  "((\<exists>e. mcpAuthRouter newURL2 options = Inl e \<and> issuer_error e)
      \<longleftrightarrow> (protocol (issuerUrl options) \<noteq> ''https:'' \<and> hostname (issuerUrl options) \<noteq> ''localhost''
             \<and> hostname (issuerUrl options) \<noteq> ''127.0.0.1'')
          \<or> hash (issuerUrl options) \<noteq> [] \<or> search (issuerUrl options) \<noteq> [])
   \<and> (\<forall>e. checkIssuerUrl (issuerUrl options) = Inl e \<longrightarrow> mcpAuthRouter newURL2 options = Inl e)"
proof -
  have first: "mcpAuthRouter newURL2 options = Inl e"
    if "checkIssuerUrl (issuerUrl options) = Inl e" for e
    using that by (simp add: mcpAuthRouter_def)
  have "(\<exists>e. mcpAuthRouter newURL2 options = Inl e \<and> issuer_error e)
          \<longleftrightarrow> (\<exists>e. checkIssuerUrl (issuerUrl options) = Inl e)"
  proof
    assume "\<exists>e. mcpAuthRouter newURL2 options = Inl e \<and> issuer_error e"
    then obtain e where e: "mcpAuthRouter newURL2 options = Inl e" "issuer_error e" by blast
    show "\<exists>e. checkIssuerUrl (issuerUrl options) = Inl e"
    proof (cases "checkIssuerUrl (issuerUrl options)")
      case (Inl a)
      then show ?thesis by blast
    next
      case (Inr b)
      then have "e = InvalidURL" using mcpAuthRouter_checked e(1) by simp
      with e(2) show ?thesis by (simp add: issuer_error_def)
    qed
  next
    assume "\<exists>e. checkIssuerUrl (issuerUrl options) = Inl e"
    then show "\<exists>e. mcpAuthRouter newURL2 options = Inl e \<and> issuer_error e"
      using first checkIssuerUrl_issuer_error by blast
  qed
  then show ?thesis
    using first checkIssuerUrl_Inl_iff [of "issuerUrl options"] by simp
qed

text \<open>The specification's scenario: the issuer \<^verbatim>\<open>http://auth.example.com\<close> is
  rejected when the router is built.\<close>

theorem issuer_http_rejected:
  "newURL_plain ''http://auth.example.com'' = Some issuer_http
   \<and> mcpAuthRouter newURL2_plain (router_options issuer_http InMemoryAuthProvider_methods)
       = Inl IssuerMustBeHttps"
proof -
  have parsed: "newURL_plain ''http://auth.example.com'' = Some issuer_http"
    by code_simp
  have rejected: "checkIssuerUrl (issuerUrl (router_options issuer_http InMemoryAuthProvider_methods))
                    = Inl IssuerMustBeHttps"
    by code_simp
  show ?thesis
    using issuer_checked_before_routes
            [of newURL2_plain "router_options issuer_http InMemoryAuthProvider_methods"]
      parsed rejected by simp
qed

text \<open>
  Claim C8 fails on the code where the issuer has a fragment or a query that is empty.
  The option's documentation asks for an issuer with no query or fragment components,
  and the errors say that the issuer must not have a fragment or a query string; but
  \<^verbatim>\<open>checkIssuerUrl\<close> tests \<^verbatim>\<open>issuer.hash\<close> and \<^verbatim>\<open>issuer.search\<close>, which are the empty string
  for an empty component. So \<^verbatim>\<open>https://auth.example.com/#\<close> and
  \<^verbatim>\<open>https://auth.example.com/?\<close> pass the check, the router is built with all its
  endpoints, and the metadata document names the issuer with its \<^verbatim>\<open>#\<close> or \<^verbatim>\<open>?\<close>.
\<close>

theorem issuer_with_empty_fragment_or_query_accepted:
  "newURL_plain ''https://auth.example.com/#'' = Some issuer_empty_fragment
   \<and> fragment issuer_empty_fragment = Some []
   \<and> checkIssuerUrl issuer_empty_fragment = Inr ()
   \<and> map_sum id issuer
         (auth_metadata newURL2_plain (router_options issuer_empty_fragment InMemoryAuthProvider_methods))
       = Inr ''https://auth.example.com/#''
   \<and> map_sum id (map fst)
         (mcpAuthRouter newURL2_plain (router_options issuer_empty_fragment InMemoryAuthProvider_methods))
       = Inr [''/authorize'', ''/token'', ''/.well-known/oauth-authorization-server'',
              ''/.well-known/oauth-protected-resource'', ''/register'']
   \<and> newURL_plain ''https://auth.example.com/?'' = Some issuer_empty_query
   \<and> query issuer_empty_query = Some []
   \<and> checkIssuerUrl issuer_empty_query = Inr ()
   \<and> map_sum id issuer
         (auth_metadata newURL2_plain (router_options issuer_empty_query InMemoryAuthProvider_methods))
       = Inr ''https://auth.example.com/?''
   \<and> map_sum id (map fst)
         (mcpAuthRouter newURL2_plain (router_options issuer_empty_query InMemoryAuthProvider_methods))
       = Inr [''/authorize'', ''/token'', ''/.well-known/oauth-authorization-server'',
              ''/.well-known/oauth-protected-resource'', ''/register'']"
  by code_simp

lemma mcpAuthRouter_Inr:
  assumes "mcpAuthRouter newURL2 options = Inr r"
  shows "\<exists>m pm. auth_metadata newURL2 options = Inr m
           \<and> r = [(''/authorize'', AuthorizationHandler), (''/token'', TokenHandler),
                  (''/.well-known/oauth-authorization-server'', MetadataHandler m),
                  (''/.well-known/oauth-protected-resource'', ResourceMetadataHandler pm)]
                 @ (if registerClient_defined (provider options)
                    then [(''/register'', ClientRegistrationHandler)] else [])
                 @ (if revokeToken_defined (provider options)
                    then [(''/revoke'', RevocationHandler)] else [])"
proof (cases "auth_metadata newURL2 options")
  case (Inl e)
  with assms show ?thesis
    by (simp add: mcpAuthRouter_def split: sum.splits)
next
  case (Inr m)
  with assms show ?thesis
    by (auto simp add: mcpAuthRouter_def mcpProtectedResourceRouter_def split: sum.splits)
qed

text \<open>
  Claim C9. Whenever \<^verbatim>\<open>mcpAuthRouter\<close> returns a router, the one authorization-server
  metadata document it serves has \<^verbatim>\<open>revocation_endpoint\<close> and
  \<^verbatim>\<open>revocation_endpoint_auth_methods_supported\<close> exactly when the provider defines
  \<^verbatim>\<open>revokeToken\<close>, and \<^verbatim>\<open>registration_endpoint\<close> exactly when the clients store defines
  \<^verbatim>\<open>registerClient\<close>; a field that is there is not empty, and one that is not there is
  \<^verbatim>\<open>undefined\<close> in the object, hence missing from its JSON document.
\<close>

theorem metadata_fields_follow_capabilities:
  assumes "mcpAuthRouter newURL2 options = Inr r"
  shows "\<exists>m. (''/.well-known/oauth-authorization-server'', MetadataHandler m) \<in> set r
           \<and> (\<forall>pth m'. (pth, MetadataHandler m') \<in> set r \<longrightarrow> m' = m)
           \<and> (revocation_endpoint m \<noteq> None) = revokeToken_defined (provider options)
           \<and> (revocation_endpoint_auth_methods_supported m \<noteq> None)
               = revokeToken_defined (provider options)
           \<and> (registration_endpoint m \<noteq> None) = registerClient_defined (provider options)
           \<and> revocation_endpoint m \<noteq> Some [] \<and> registration_endpoint m \<noteq> Some []
           \<and> revocation_endpoint_auth_methods_supported m \<noteq> Some []"
proof -
  from mcpAuthRouter_Inr [OF assms] obtain m pm
    where m: "auth_metadata newURL2 options = Inr m"
      and r: "r = [(''/authorize'', AuthorizationHandler), (''/token'', TokenHandler),
                  (''/.well-known/oauth-authorization-server'', MetadataHandler m),
                  (''/.well-known/oauth-protected-resource'', ResourceMetadataHandler pm)]
                 @ (if registerClient_defined (provider options)
                    then [(''/register'', ClientRegistrationHandler)] else [])
                 @ (if revokeToken_defined (provider options)
                    then [(''/revoke'', RevocationHandler)] else [])"
    by blast
  have here: "(''/.well-known/oauth-authorization-server'', MetadataHandler m) \<in> set r"
    unfolding r by simp
  have only: "\<forall>pth m'. (pth, MetadataHandler m') \<in> set r \<longrightarrow> m' = m"
    unfolding r by simp
  from auth_metadata_Inr [OF m] here only show ?thesis
    by blast
qed

text \<open>Claim C9 at the specification's scenario: for the issuer
  \<^verbatim>\<open>https://auth.example.com\<close> and the in-memory provider, which defines
  \<^verbatim>\<open>registerClient\<close> and no \<^verbatim>\<open>revokeToken\<close>, the document has no revocation fields.\<close>

theorem metadata_fields_follow_capabilities_witness:
  "\<exists>r m. mcpAuthRouter newURL2_plain (router_options issuer_https InMemoryAuthProvider_methods) = Inr r
     \<and> (''/.well-known/oauth-authorization-server'', MetadataHandler m) \<in> set r
     \<and> revocation_endpoint m = None
     \<and> revocation_endpoint_auth_methods_supported m = None
     \<and> registration_endpoint m = Some ''https://auth.example.com/register''"
  using metadata_fields_follow_capabilities [OF router_of_InMemoryAuthProvider]
  by (auto simp: router_of_InMemoryAuthProvider)

end
